theory Spec2Isabelle
  imports Complex_Main "HOL-Library.Word"
begin

section \<open>JavaScript values seen by the binding\<close>

text \<open>
  The arguments of a bound method are JavaScript values. The source only looks at them
  through \<^verbatim>\<open>args.Length()\<close>, \<^verbatim>\<open>IsFunction\<close>, \<^verbatim>\<open>IsNumber\<close>, \<^verbatim>\<open>Int32Value\<close>,
  \<^verbatim>\<open>ToUint32\<close> and \<^verbatim>\<open>Array::Cast\<close>. Numbers are modelled by their mathematical
  value (every finite double is a rational) together with the three non-finite doubles.
  Strings and objects with user-defined conversions are not values of the model: their
  numeric coercion runs the engine's parser or user code.
\<close>

datatype js_number = Finite rat | NaN | PosInfinity | NegInfinity

datatype js_value =
    JSUndefined
  | JSNull
  | JSBoolean bool
  | JSNumber js_number
  | JSFunction nat
  | JSArray "js_value list"

text \<open>ECMAScript \<open>ToNumber\<close>; an array is first joined with commas into a string.\<close>

fun ToNumber :: "js_value \<Rightarrow> js_number" where
  "ToNumber JSUndefined = NaN"
| "ToNumber JSNull = Finite 0"
| "ToNumber (JSBoolean b) = Finite (if b then 1 else 0)"
| "ToNumber (JSNumber n) = n"
| "ToNumber (JSFunction f) = NaN"
| "ToNumber (JSArray []) = Finite 0"
| "ToNumber (JSArray [JSUndefined]) = Finite 0"
| "ToNumber (JSArray [JSNull]) = Finite 0"
| "ToNumber (JSArray [JSBoolean b]) = NaN"
| "ToNumber (JSArray [JSNumber n]) = n"
| "ToNumber (JSArray [JSFunction f]) = NaN"
| "ToNumber (JSArray [JSArray ys]) = ToNumber (JSArray ys)"
| "ToNumber (JSArray (x # y # zs)) = NaN"

text \<open>
  ECMAScript \<open>ToInt32\<close> and \<open>ToUint32\<close> produce the same 32 bits: the number is
  truncated towards zero and reduced modulo \<open>2 ^ 32\<close>; NaN and the infinities give 0.
  \<open>Int32Value\<close> reads the bits as two's complement.
\<close>

definition truncate_rat :: "rat \<Rightarrow> int" where
  "truncate_rat q = (if q < 0 then \<lceil>q\<rceil> else \<lfloor>q\<rfloor>)"

fun to_bits32 :: "js_number \<Rightarrow> 32 word" where
  "to_bits32 (Finite q) = word_of_int (truncate_rat q)"
| "to_bits32 NaN = 0"
| "to_bits32 PosInfinity = 0"
| "to_bits32 NegInfinity = 0"

definition ToUint32 :: "js_value \<Rightarrow> 32 word" where
  "ToUint32 v = to_bits32 (ToNumber v)"

definition Int32Value :: "js_value \<Rightarrow> int" where
  "Int32Value v = sint (to_bits32 (ToNumber v))"

fun IsFunction :: "js_value \<Rightarrow> bool" where
  "IsFunction (JSFunction f) = True"
| "IsFunction v = False"

fun IsNumber :: "js_value \<Rightarrow> bool" where
  "IsNumber (JSNumber n) = True"
| "IsNumber v = False"

text \<open>\<^verbatim>\<open>args[i]\<close>: an index past the arguments passed yields \<open>undefined\<close>.\<close>

definition arg :: "js_value list \<Rightarrow> nat \<Rightarrow> js_value" where
  "arg args i = (if i < length args then args ! i else JSUndefined)"

section \<open>Memory and the native layer\<close>

type_synonym byte = "8 word"

text \<open>A byte of a buffer that was allocated and never written holds no defined value.\<close>

type_synonym cell = "byte option"

text \<open>\<^verbatim>\<open>hid_device*\<close>: \<open>None\<close> is the null pointer.\<close>

type_synonym dev_ptr = nat

text \<open>The ways an execution of the C++ code leaves defined behaviour.\<close>

datatype fault =
    Bad_Cast
  | Bad_Array_Length
  | Out_Of_Bounds
  | Uninitialised_Read
  | Double_Free
  | Uncaught_Exception string

text \<open>A heap array made by \<^verbatim>\<open>new unsigned char[n]\<close>, until \<^verbatim>\<open>delete[]\<close>.\<close>

record buffer =
  cells :: "cell list"
  live :: bool

definition new_array :: "nat \<Rightarrow> buffer" where
  "new_array n = \<lparr>cells = replicate n None, live = True\<rparr>"

definition delete_array :: "buffer \<Rightarrow> fault + buffer" where
  "delete_array b = (if live b then Inr (b\<lparr>live := False\<rparr>) else Inl Double_Free)"

text \<open>The loop \<^verbatim>\<open>for (i = begin; i != end; i++) *p++ = *i;\<close> over a source vector.\<close>

definition copy_loop :: "'a list \<Rightarrow> 'a list \<Rightarrow> 'a list" where
  "copy_loop src dst = fst (fold (\<lambda>x (buf, p). (buf[p := x], Suc p)) src (dst, 0))"

text \<open>What a native call leaves in the caller's buffer: it stores bytes from the start.\<close>

definition store :: "cell list \<Rightarrow> byte list \<Rightarrow> cell list" where
  "store buf written = map Some (take (length buf) written) @ drop (length written) buf"

text \<open>
  The record of one device as \<^verbatim>\<open>hid_enumerate\<close> returns it. The struct is declared in
  \<^verbatim>\<open>hidapi.h\<close>; the source reads these ten fields, four of them nullable strings.
\<close>

type_synonym wchar = "32 word"

record hid_device_info =
  vendor_id :: int
  product_id :: int
  path :: "string option"
  serial_number :: "wchar list option"
  manufacturer_string :: "wchar list option"
  product_string :: "wchar list option"
  release_number :: int
  interface_number :: int
  usage_page :: int
  usage :: int

text \<open>
  The calls into \<^verbatim>\<open>hidapi\<close> that an execution makes, in order, with the handle and the
  buffer contents passed.
\<close>

datatype native_call =
    Call_hid_close "dev_ptr option"
  | Call_hid_set_nonblocking "dev_ptr option" int
  | Call_hid_write "dev_ptr option" "cell list" nat
  | Call_hid_read "dev_ptr option" "cell list" nat
  | Call_hid_get_feature_report "dev_ptr option" "cell list" nat
  | Call_hid_send_feature_report "dev_ptr option" "cell list" nat
  | Call_hid_enumerate int int
  | Call_hid_free_enumeration

text \<open>
  What the native library answers. It is not part of the source, so every operation takes
  its behaviour as a parameter: the \<^verbatim>\<open>int\<close> result of each call and, for the two calls
  that fill a buffer, the bytes stored from the start of that buffer.
\<close>

record hidapi =
  hid_set_nonblocking :: "dev_ptr option \<Rightarrow> int \<Rightarrow> int"
  hid_write :: "dev_ptr option \<Rightarrow> cell list \<Rightarrow> nat \<Rightarrow> int"
  hid_read :: "dev_ptr option \<Rightarrow> nat \<Rightarrow> int \<times> byte list"
  hid_get_feature_report :: "dev_ptr option \<Rightarrow> cell list \<Rightarrow> nat \<Rightarrow> int \<times> byte list"
  hid_send_feature_report :: "dev_ptr option \<Rightarrow> cell list \<Rightarrow> nat \<Rightarrow> int"
  hid_enumerate :: "int \<Rightarrow> int \<Rightarrow> hid_device_info list"

section \<open>The device handle object\<close>

text \<open>
  \<^verbatim>\<open>class HID\<close> has one field, \<^verbatim>\<open>_hidHandle\<close>; \<open>refs\<close> is the reference count of
  the wrapper base class that \<^verbatim>\<open>Ref()\<close> and \<^verbatim>\<open>Unref()\<close> move.
\<close>

record HID =
  hidHandle :: "dev_ptr option"
  refs :: nat

datatype JSException = JSException string

fun message :: "JSException \<Rightarrow> string" where
  "message (JSException text) = text"

text \<open>\<^verbatim>\<open>void HID::close()\<close>\<close>

definition HID_close :: "HID \<Rightarrow> HID \<times> native_call list" where
  "HID_close hid =
     (case hidHandle hid of
        Some h \<Rightarrow> (hid\<lparr>hidHandle := None\<rparr>, [Call_hid_close (Some h)])
      | None \<Rightarrow> (hid, []))"

text \<open>\<^verbatim>\<open>void HID::setNonBlocking(int message) throw(JSException)\<close>\<close>

definition HID_setNonBlocking ::
  "hidapi \<Rightarrow> HID \<Rightarrow> int \<Rightarrow> (JSException + unit) \<times> native_call list" where
  "HID_setNonBlocking api hid msg =
     (let res = hid_set_nonblocking api (hidHandle hid) msg
      in (if res < 0 then Inl (JSException ''Error setting non-blocking mode.'') else Inr (),
          [Call_hid_set_nonblocking (hidHandle hid) msg]))"

text \<open>\<^verbatim>\<open>void HID::write(const databuf_t& message) throw(JSException)\<close>\<close>

definition HID_write ::
  "hidapi \<Rightarrow> HID \<Rightarrow> byte list \<Rightarrow> (JSException + unit) \<times> native_call list" where
  "HID_write api hid msg =
     (let buf = new_array (length msg);
          buf1 = copy_loop (map Some msg) (cells buf);
          res = hid_write api (hidHandle hid) buf1 (length msg)
      in (if res < 0 then Inl (JSException ''Cannot write to HID device'') else Inr (),
          [Call_hid_write (hidHandle hid) buf1 (length msg)]))"

section \<open>The bound methods\<close>

text \<open>
  Values the binding hands back to JavaScript: return values, callback arguments and the
  descriptor objects of the enumeration (an object is the list of its properties in the
  order they were set).
\<close>

datatype js_result =
    Undefined_result
  | Integer_result int
  | String_result string
  | Error_result string
  | Buffer_result "cell list"
  | Array_result "js_result list"
  | Object_result "(string \<times> js_result) list"

text \<open>
  What one execution of a bound method did. \<^verbatim>\<open>NanThrowError\<close> is a function of the
  \<^verbatim>\<open>nan.h\<close> header: it schedules a JavaScript exception and returns to its caller, so
  the statements after it still run (the source itself writes \<^verbatim>\<open>NanReturnUndefined()\<close>
  after each \<^verbatim>\<open>throwAsV8Exception()\<close>). \<open>thrown\<close> lists the messages scheduled, oldest
  first; \<open>calls\<close> lists the native calls made, oldest first; \<open>returned\<close> is the value
  given to \<^verbatim>\<open>NanReturnValue\<close> or \<^verbatim>\<open>NanReturnUndefined\<close>. When the execution leaves
  defined behaviour, \<open>fault\<close> says where; the other fields then hold what had happened
  up to that point and \<open>returned\<close> is \<open>None\<close>.
\<close>

record outcome =
  hid_after :: HID
  calls :: "native_call list"
  thrown :: "string list"
  returned :: "js_result option"
  fault :: "fault option"

definition finished :: "HID \<Rightarrow> native_call list \<Rightarrow> string list \<Rightarrow> js_result \<Rightarrow> outcome" where
  "finished hid cs th v =
     \<lparr>hid_after = hid, calls = cs, thrown = th, returned = Some v, fault = None\<rparr>"

definition faulted :: "HID \<Rightarrow> native_call list \<Rightarrow> string list \<Rightarrow> fault \<Rightarrow> outcome" where
  "faulted hid cs th f =
     \<lparr>hid_after = hid, calls = cs, thrown = th, returned = None, fault = Some f\<rparr>"

text \<open>\<^verbatim>\<open>NAN_METHOD(HID::close)\<close>\<close>

definition NAN_METHOD_close :: "HID \<Rightarrow> js_value list \<Rightarrow> outcome" where
  "NAN_METHOD_close hid args =
     (let (hid1, cs) = HID_close hid in finished hid1 cs [] Undefined_result)"

text \<open>\<^verbatim>\<open>NAN_METHOD(HID::setNonBlocking)\<close>\<close>

definition NAN_METHOD_setNonBlocking :: "hidapi \<Rightarrow> HID \<Rightarrow> js_value list \<Rightarrow> outcome" where
  "NAN_METHOD_setNonBlocking api hid args =
     (let thrown0 =
            (if length args \<noteq> 1
             then [''Expecting a 1 to enable, 0 to disable as the first argument.'']
             else []);
          blockStatus = Int32Value (arg args 0);
          (r, cs) = HID_setNonBlocking api hid blockStatus
      in case r of
           Inl e \<Rightarrow> finished hid cs (thrown0 @ [message e]) Undefined_result
         | Inr u \<Rightarrow> finished hid cs thrown0 Undefined_result)"

text \<open>
  The element loop of \<^verbatim>\<open>write\<close> and \<^verbatim>\<open>sendFeatureReport\<close>:
  \<^verbatim>\<open>message.push_back((unsigned char) messageArray->Get(i)->Int32Value())\<close>.
\<close>

fun push_elements :: "js_value list \<Rightarrow> byte list \<Rightarrow> JSException + byte list" where
  "push_elements [] msg = Inr msg"
| "push_elements (x # xs) msg =
     (if \<not> IsNumber x
      then Inl (JSException
                  ''unexpected array element in array to send, expecting only integers'')
      else push_elements xs (msg @ [word_of_int (Int32Value x)]))"

text \<open>\<^verbatim>\<open>NAN_METHOD(HID::write)\<close>\<close>

definition NAN_METHOD_write :: "hidapi \<Rightarrow> HID \<Rightarrow> js_value list \<Rightarrow> outcome" where
  "NAN_METHOD_write api hid args =
     (let thrown0 = (if length args \<noteq> 1 then [''HID write requires one argument''] else [])
      in case arg args 0 of
           JSArray messageArray \<Rightarrow>
             (case push_elements messageArray [] of
                Inl e \<Rightarrow> finished hid [] (thrown0 @ [message e]) Undefined_result
              | Inr msg \<Rightarrow>
                  (case HID_write api hid msg of
                     (Inl e, cs) \<Rightarrow> finished hid cs (thrown0 @ [message e]) Undefined_result
                   | (Inr u, cs) \<Rightarrow> finished hid cs thrown0 Undefined_result))
         | _ \<Rightarrow> faulted hid [] thrown0 Bad_Cast)"

text \<open>\<^verbatim>\<open>NAN_METHOD(HID::sendFeatureReport)\<close>: the element check throws outside any \<^verbatim>\<open>try\<close>.\<close>

definition NAN_METHOD_sendFeatureReport :: "hidapi \<Rightarrow> HID \<Rightarrow> js_value list \<Rightarrow> outcome" where
  "NAN_METHOD_sendFeatureReport api hid args =
     (let thrown0 =
            (if length args \<noteq> 1
             then [''need report (including id in first byte) only in sendFeatureReport'']
             else [])
      in case arg args 0 of
           JSArray messageArray \<Rightarrow>
             (case push_elements messageArray [] of
                Inl e \<Rightarrow> faulted hid [] thrown0 (Uncaught_Exception (message e))
              | Inr msg \<Rightarrow>
                  (let buf = new_array (length msg);
                       buf1 = copy_loop (map Some msg) (cells buf);
                       returnedLength =
                         hid_send_feature_report api (hidHandle hid) buf1 (length msg);
                       thrown1 =
                         thrown0 @
                         (if returnedLength = - 1
                          then [''could not send feature report to device'']
                          else [])
                   in finished hid
                        [Call_hid_send_feature_report (hidHandle hid) buf1 (length msg)]
                        thrown1 (Integer_result returnedLength)))
         | _ \<Rightarrow> faulted hid [] thrown0 Bad_Cast)"

text \<open>
  \<^verbatim>\<open>NAN_METHOD(HID::getFeatureReport)\<close>. The result loop
  \<^verbatim>\<open>for (int i = 0; i < returnedLength; i++) retval->Set(i, NanNew<Integer>(buf[i]))\<close>
  reads the buffer cell by cell.
\<close>

definition read_element :: "cell list \<Rightarrow> nat \<Rightarrow> fault + js_result" where
  "read_element cs i =
     (if i < length cs
      then (case cs ! i of
              Some b \<Rightarrow> Inr (Integer_result (uint b))
            | None \<Rightarrow> Inl Uninitialised_Read)
      else Inl Out_Of_Bounds)"

definition fill_retval :: "cell list \<Rightarrow> int \<Rightarrow> fault + js_result list" where
  "fill_retval cs returnedLength =
     fold (\<lambda>i r. case r of
                   Inl f \<Rightarrow> Inl f
                 | Inr retval \<Rightarrow>
                     (case read_element cs i of
                        Inl f \<Rightarrow> Inl f
                      | Inr v \<Rightarrow> Inr (retval @ [v])))
          [0..<nat returnedLength] (Inr [])"

text \<open>Lines 280 to 286: the result loop, the final \<^verbatim>\<open>delete[] buf\<close>, the return.\<close>

definition getFeatureReport_rest ::
  "HID \<Rightarrow> native_call list \<Rightarrow> string list \<Rightarrow> buffer \<Rightarrow> int \<Rightarrow> outcome" where
  "getFeatureReport_rest hid cs th buf returnedLength =
     (case fill_retval (cells buf) returnedLength of
        Inl f \<Rightarrow> faulted hid cs th f
      | Inr retval \<Rightarrow>
          (case delete_array buf of
             Inl f \<Rightarrow> faulted hid cs th f
           | Inr buf1 \<Rightarrow> finished hid cs th (Array_result retval)))"

definition NAN_METHOD_getFeatureReport :: "hidapi \<Rightarrow> HID \<Rightarrow> js_value list \<Rightarrow> outcome" where
  "NAN_METHOD_getFeatureReport api hid args =
     (let thrown0 =
            (if length args \<noteq> 2 \<or> ToUint32 (arg args 1) = 0
             then [''need report ID and non-zero length parameter in getFeatureReport'']
             else []);
          reportId = (ucast (ToUint32 (arg args 0)) :: byte);
          bufSize = sint (ToUint32 (arg args 1))
      in if bufSize < 0 then faulted hid [] thrown0 Bad_Array_Length
         else
           (let buf = new_array (nat bufSize)
            in if \<not> 0 < length (cells buf) then faulted hid [] thrown0 Out_Of_Bounds
               else
                 (let buf1 = buf\<lparr>cells := (cells buf)[0 := Some reportId]\<rparr>;
                      cs = [Call_hid_get_feature_report
                              (hidHandle hid) (cells buf1) (nat bufSize)];
                      (returnedLength, written) =
                        hid_get_feature_report api (hidHandle hid) (cells buf1) (nat bufSize);
                      buf2 = buf1\<lparr>cells := store (cells buf1) written\<rparr>
                  in if returnedLength = - 1
                     then (case delete_array buf2 of
                             Inl f \<Rightarrow> faulted hid cs thrown0 f
                           | Inr buf3 \<Rightarrow>
                               getFeatureReport_rest hid cs
                                 (thrown0 @ [''could not get feature report from device''])
                                 buf3 returnedLength)
                     else getFeatureReport_rest hid cs thrown0 buf2 returnedLength)))"

section \<open>The asynchronous read\<close>

text \<open>\<^verbatim>\<open>struct ReceiveIOCB\<close>; the \<^verbatim>\<open>_hid\<close> pointer is the handle object passed along.\<close>

record ReceiveIOCB =
  iocb_callback :: js_value
  iocb_error :: "JSException option"
  iocb_data :: "cell list"

text \<open>\<^verbatim>\<open>NAN_METHOD(HID::read)\<close>: the outcome and the work item given to \<^verbatim>\<open>uv_queue_work\<close>.\<close>

definition NAN_METHOD_read :: "HID \<Rightarrow> js_value list \<Rightarrow> outcome \<times> ReceiveIOCB option" where
  "NAN_METHOD_read hid args =
     (let thrown0 =
            (if length args \<noteq> 1 \<or> \<not> IsFunction (arg args 0)
             then [''need one callback function argument in read'']
             else []);
          hid1 = hid\<lparr>refs := Suc (refs hid)\<rparr>
      in if \<not> IsFunction (arg args 0) then (faulted hid1 [] thrown0 Bad_Cast, None)
         else (finished hid1 [] thrown0 Undefined_result,
               Some \<lparr>iocb_callback = arg args 0, iocb_error = None, iocb_data = []\<rparr>))"

text \<open>\<^verbatim>\<open>HID::recvAsync\<close>, run once on a worker thread.\<close>

definition recvAsync ::
  "hidapi \<Rightarrow> HID \<Rightarrow> ReceiveIOCB \<Rightarrow> (fault + ReceiveIOCB) \<times> native_call list" where
  "recvAsync api hid iocb =
     (let buf = replicate 1024 None;
          (len, written) = hid_read api (hidHandle hid) 1024;
          buf1 = store buf written;
          cs = [Call_hid_read (hidHandle hid) buf 1024]
      in if len < 0
         then (Inr (iocb\<lparr>iocb_error :=
                      Some (JSException ''could not read from HID device'')\<rparr>), cs)
         else if 1024 < len then (Inl Out_Of_Bounds, cs)
         else (Inr (iocb\<lparr>iocb_data := take (nat len) buf1\<rparr>), cs))"

text \<open>\<^verbatim>\<open>HID::readResultsToJSCallbackArguments\<close>\<close>

definition readResultsToJSCallbackArguments ::
  "ReceiveIOCB \<Rightarrow> js_result list \<Rightarrow> js_result list" where
  "readResultsToJSCallbackArguments iocb argv =
     (case iocb_error iocb of
        Some e \<Rightarrow> argv[0 := Error_result (message e)]
      | None \<Rightarrow>
          (let msg = iocb_data iocb;
               data = copy_loop msg (replicate (length msg) None)
           in argv[1 := Buffer_result data]))"

text \<open>
  \<^verbatim>\<open>HID::recvAsyncDone\<close>, run once on the owning thread after the worker: the handle
  after \<^verbatim>\<open>Unref()\<close> and the invocations of the callback, each with its argument vector.
\<close>

definition recvAsyncDone ::
  "HID \<Rightarrow> ReceiveIOCB \<Rightarrow> HID \<times> (js_value \<times> js_result list) list" where
  "recvAsyncDone hid iocb =
     (let argv = [Undefined_result, Undefined_result];
          argv1 = readResultsToJSCallbackArguments iocb argv;
          hid1 = hid\<lparr>refs := refs hid - 1\<rparr>
      in (hid1, [(iocb_callback iocb, argv1)]))"

text \<open>
  One read request from submission to completion: \<^verbatim>\<open>uv_queue_work\<close> runs the worker
  function and then the completion function, once each, on the queued item.
\<close>

record read_run =
  submitted :: outcome
  worker_calls :: "native_call list"
  worker_fault :: "fault option"
  callback_calls :: "(js_value \<times> js_result list) list"
  hid_final :: HID

definition read_request :: "hidapi \<Rightarrow> HID \<Rightarrow> js_value list \<Rightarrow> read_run" where
  "read_request api hid args =
     (case NAN_METHOD_read hid args of
        (out, None) \<Rightarrow>
          \<lparr>submitted = out, worker_calls = [], worker_fault = None, callback_calls = [],
           hid_final = hid_after out\<rparr>
      | (out, Some iocb) \<Rightarrow>
          (case recvAsync api (hid_after out) iocb of
             (Inl f, cs) \<Rightarrow>
               \<lparr>submitted = out, worker_calls = cs, worker_fault = Some f,
                callback_calls = [], hid_final = hid_after out\<rparr>
           | (Inr iocb1, cs) \<Rightarrow>
               (let (hid1, cbs) = recvAsyncDone (hid_after out) iocb1
                in \<lparr>submitted = out, worker_calls = cs, worker_fault = None,
                    callback_calls = cbs, hid_final = hid1\<rparr>)))"

section \<open>Enumeration\<close>

text \<open>
  \<^verbatim>\<open>narrow\<close>. The stream \<^verbatim>\<open>os\<close> is a \<^verbatim>\<open>char\<close> stream, so \<^verbatim>\<open>os.narrow\<close> has the
  signature \<^verbatim>\<open>char narrow(char c, char dfault)\<close>: each \<^verbatim>\<open>wchar_t\<close> is converted to
  \<^verbatim>\<open>char\<close> at the call, keeping its low eight bits, and the result goes through the
  \<^verbatim>\<open>char\<close>-to-\<^verbatim>\<open>char\<close> facet of the C++ library, which is a parameter here.
  \<^verbatim>\<open>wstring ws(wide)\<close> reads up to the terminator.
\<close>

definition narrow :: "(char \<Rightarrow> char \<Rightarrow> char) \<Rightarrow> wchar list \<Rightarrow> string" where
  "narrow ctype_narrow wide =
     map (\<lambda>wc. ctype_narrow (char_of (unat wc)) (CHR ''?'')) (takeWhile (\<lambda>wc. wc \<noteq> 0) wide)"

text \<open>The two facets in use: one returns the character, one keeps ASCII only.\<close>

definition ctype_narrow_same :: "char \<Rightarrow> char \<Rightarrow> char" where
  "ctype_narrow_same c dfault = c"

definition ctype_narrow_ascii :: "char \<Rightarrow> char \<Rightarrow> char" where
  "ctype_narrow_ascii c dfault = (if (of_char c :: nat) < 128 then c else dfault)"

text \<open>\<^verbatim>\<open>NanNew<String>(const char*)\<close> reads a C string: it ends at the first NUL.\<close>

definition c_str :: "string \<Rightarrow> string" where
  "c_str s = takeWhile (\<lambda>c. c \<noteq> CHR 0x00) s"

text \<open>The body of the loop over the enumeration: one descriptor object.\<close>

definition deviceInfo :: "(char \<Rightarrow> char \<Rightarrow> char) \<Rightarrow> hid_device_info \<Rightarrow> js_result" where
  "deviceInfo ctype_narrow dev =
     Object_result
       ([(''vendorId'', Integer_result (vendor_id dev)),
         (''productId'', Integer_result (product_id dev))] @
        (case path dev of
           Some p \<Rightarrow> [(''path'', String_result (c_str p))]
         | None \<Rightarrow> []) @
        (case serial_number dev of
           Some w \<Rightarrow> [(''serialNumber'', String_result (c_str (narrow ctype_narrow w)))]
         | None \<Rightarrow> []) @
        (case manufacturer_string dev of
           Some w \<Rightarrow> [(''manufacturer'', String_result (c_str (narrow ctype_narrow w)))]
         | None \<Rightarrow> []) @
        (case product_string dev of
           Some w \<Rightarrow> [(''product'', String_result (c_str (narrow ctype_narrow w)))]
         | None \<Rightarrow> []) @
        [(''release'', Integer_result (release_number dev)),
         (''interface'', Integer_result (interface_number dev)),
         (''usagePage'', Integer_result (usage_page dev)),
         (''usage'', Integer_result (usage dev))])"

text \<open>
  The native library takes device ids as \<^verbatim>\<open>unsigned short\<close> (the constructor at line 116
  passes them to \<^verbatim>\<open>hid_open\<close> with that type), so an \<^verbatim>\<open>int\<close> argument is converted at
  the call: it is reduced modulo \<open>2 ^ 16\<close>.
\<close>

definition to_unsigned_short :: "int \<Rightarrow> int" where
  "to_unsigned_short x = x mod 65536"

text \<open>
  \<^verbatim>\<open>NAN_METHOD(HID::devices)\<close>; it is static, there is no handle. The call
  \<^verbatim>\<open>hid_enumerate(vendorId, productId)\<close> converts its two \<^verbatim>\<open>int\<close> arguments.
\<close>

record enumeration =
  enum_calls :: "native_call list"
  enum_thrown :: "string list"
  enum_returned :: "js_result list"

definition NAN_METHOD_devices ::
  "(char \<Rightarrow> char \<Rightarrow> char) \<Rightarrow> hidapi \<Rightarrow> js_value list \<Rightarrow> enumeration" where
  "NAN_METHOD_devices ctype_narrow api args =
     (let (vendorId, productId, th) =
            (if length args = 0 then (0, 0, [])
             else if length args = 2
             then (Int32Value (arg args 0), Int32Value (arg args 1), [])
             else (0, 0,
                   [''unexpected number of arguments to HID.devices() call, expecting either no arguments or vendor and product ID'']));
          devs = hid_enumerate api (to_unsigned_short vendorId) (to_unsigned_short productId)
      in \<lparr>enum_calls =
            [Call_hid_enumerate (to_unsigned_short vendorId) (to_unsigned_short productId),
             Call_hid_free_enumeration],
          enum_thrown = th,
          enum_returned = map (deviceInfo ctype_narrow) devs\<rparr>)"

section \<open>Definitions used to state the properties\<close>

text \<open>
  Modelled from the spec: \<^verbatim>\<open>hid_enumerate\<close>, the native enumeration, is not in the
  source. The spec says of it: zero filters means "all devices"; non-zero values filter
  by exact match on vendor/product id. \<open>attached\<close> is the list of devices present, in the
  native enumeration order.
\<close>

definition hid_enumerate_spec :: "hid_device_info list \<Rightarrow> int \<Rightarrow> int \<Rightarrow> hid_device_info list" where
  "hid_enumerate_spec attached vendorId productId =
     filter (\<lambda>d. (vendorId = 0 \<or> vendor_id d = vendorId) \<and>
                 (productId = 0 \<or> product_id d = productId)) attached"

text \<open>Reading a property of a descriptor object.\<close>

fun property :: "js_result \<Rightarrow> string \<Rightarrow> js_result option" where
  "property (Object_result ps) k = map_of ps k"
| "property v k = None"

text \<open>The outcomes of \<open>n\<close> successive calls of \<^verbatim>\<open>close()\<close> on one handle.\<close>

fun repeat_close :: "nat \<Rightarrow> HID \<Rightarrow> outcome list" where
  "repeat_close 0 hid = []"
| "repeat_close (Suc n) hid =
     (let out = NAN_METHOD_close hid [] in out # repeat_close n (hid_after out))"

text \<open>The value of a number modulo 256, as the claim about truncation words it.\<close>

fun value_mod_256 :: "js_number \<Rightarrow> int" where
  "value_mod_256 (Finite q) = truncate_rat q mod 256"
| "value_mod_256 n = 0"

text \<open>
  Two stand-ins for the native library, for concrete runs: one on which every call
  succeeds (a write reports the length it was given, a read yields the two bytes
  \<open>AA BB\<close>, a feature report of three bytes comes back), one on which every call
  reports failure.
\<close>

definition ok_set_nonblocking :: "dev_ptr option \<Rightarrow> int \<Rightarrow> int" where
  "ok_set_nonblocking dev nonblock = 0"

definition ok_write :: "dev_ptr option \<Rightarrow> cell list \<Rightarrow> nat \<Rightarrow> int" where
  "ok_write dev buf n = int n"

definition ok_read :: "dev_ptr option \<Rightarrow> nat \<Rightarrow> int \<times> byte list" where
  "ok_read dev n = (2, [0xAA, 0xBB])"

definition ok_get_feature_report :: "dev_ptr option \<Rightarrow> cell list \<Rightarrow> nat \<Rightarrow> int \<times> byte list" where
  "ok_get_feature_report dev buf n = (3, [1, 2, 3])"

definition no_devices :: "int \<Rightarrow> int \<Rightarrow> hid_device_info list" where
  "no_devices vendorId productId = []"

definition ok_api :: hidapi where
  "ok_api =
     \<lparr>hid_set_nonblocking = ok_set_nonblocking, hid_write = ok_write, hid_read = ok_read,
      hid_get_feature_report = ok_get_feature_report, hid_send_feature_report = ok_write,
      hid_enumerate = no_devices\<rparr>"

definition failing_set_nonblocking :: "dev_ptr option \<Rightarrow> int \<Rightarrow> int" where
  "failing_set_nonblocking dev nonblock = - 1"

definition failing_write :: "dev_ptr option \<Rightarrow> cell list \<Rightarrow> nat \<Rightarrow> int" where
  "failing_write dev buf n = - 1"

definition failing_read :: "dev_ptr option \<Rightarrow> nat \<Rightarrow> int \<times> byte list" where
  "failing_read dev n = (- 1, [])"

definition failing_get_feature_report ::
  "dev_ptr option \<Rightarrow> cell list \<Rightarrow> nat \<Rightarrow> int \<times> byte list" where
  "failing_get_feature_report dev buf n = (- 1, [])"

definition failing_api :: hidapi where
  "failing_api =
     \<lparr>hid_set_nonblocking = failing_set_nonblocking, hid_write = failing_write,
      hid_read = failing_read, hid_get_feature_report = failing_get_feature_report,
      hid_send_feature_report = failing_write, hid_enumerate = no_devices\<rparr>"

definition open_handle :: HID where
  "open_handle = \<lparr>hidHandle = Some 7, refs = 0\<rparr>"

text \<open>A device whose product string is the single letter U+0141.\<close>

definition sample_device :: hid_device_info where
  "sample_device =
     \<lparr>vendor_id = 0x046d, product_id = 0xc52b, path = Some ''/dev/hidraw0'',
      serial_number = None, manufacturer_string = None, product_string = Some [0x141],
      release_number = 1, interface_number = 0, usage_page = 1, usage = 6\<rparr>"

text \<open>A second device, and a native layer on which the two devices are attached.\<close>

definition other_device :: hid_device_info where
  "other_device =
     \<lparr>vendor_id = 0x1234, product_id = 0x0001, path = None,
      serial_number = Some [0x31, 0x32], manufacturer_string = Some [0x20AC],
      product_string = None,
      release_number = 2, interface_number = - 1, usage_page = 0xFF00, usage = 1\<rparr>"

definition enumerating_api :: hidapi where
  "enumerating_api = ok_api\<lparr>hid_enumerate := hid_enumerate_spec [sample_device, other_device]\<rparr>"

section \<open>Properties\<close>

lemma fold_copy:
  "length src \<le> length dst \<Longrightarrow>
   fold (\<lambda>x (buf, p). (buf[p := x], Suc p)) src (pre @ dst, length pre) =
     (pre @ src @ drop (length src) dst, length pre + length src)"
proof (induction src arbitrary: pre dst)
  case Nil
  then show ?case by simp
next
  case (Cons x xs)
  then obtain d ds where dst: "dst = d # ds" by (cases dst) auto
  have "fold (\<lambda>x (buf, p). (buf[p := x], Suc p)) xs ((pre @ [x]) @ ds, length (pre @ [x])) =
     ((pre @ [x]) @ xs @ drop (length xs) ds, length (pre @ [x]) + length xs)"
    using Cons.prems dst by (intro Cons.IH) simp
  then show ?case by (simp add: dst)
qed

lemma copy_loop_exact: "length dst = length src \<Longrightarrow> copy_loop src dst = src"
  using fold_copy [of src dst "[]"] by (simp add: copy_loop_def)

lemma transport_buffer: "copy_loop (map Some msg) (cells (new_array (length msg))) = map Some msg"
  by (simp add: copy_loop_exact new_array_def)

lemma close_closed:
  "hidHandle hid = None \<Longrightarrow> NAN_METHOD_close hid args = finished hid [] [] Undefined_result"
  by (simp add: NAN_METHOD_close_def HID_close_def)

lemma close_open:
  "hidHandle hid = Some h \<Longrightarrow>
   NAN_METHOD_close hid args =
     finished (hid\<lparr>hidHandle := None\<rparr>) [Call_hid_close (Some h)] [] Undefined_result"
  by (simp add: NAN_METHOD_close_def HID_close_def)

lemma repeat_close_closed:
  "hidHandle hid = None \<Longrightarrow>
   repeat_close n hid = replicate n (finished hid [] [] Undefined_result)"
  by (induction n) (simp_all add: close_closed finished_def Let_def)

text \<open>
  Claim C3. \<^verbatim>\<open>close()\<close> is idempotent: over any number of successive calls on a handle
  that was open, the first call makes the one and only native release and nulls the
  resource reference; every later call makes no native call; no call raises an error.
\<close>

theorem close_idempotent:
  assumes "hidHandle hid = Some h"
  shows "map calls (repeat_close (Suc n) hid) = [Call_hid_close (Some h)] # replicate n [] \<and>
         map thrown (repeat_close (Suc n) hid) = replicate (Suc n) [] \<and>
         map fault (repeat_close (Suc n) hid) = replicate (Suc n) None \<and>
         map (\<lambda>out. hidHandle (hid_after out)) (repeat_close (Suc n) hid) =
           replicate (Suc n) None"
  using assms by (simp add: close_open repeat_close_closed finished_def)

text \<open>Three successive calls on an open handle.\<close>

theorem close_idempotent_witness:
  "hidHandle open_handle = Some 7 \<and>
   map calls (repeat_close 3 open_handle) = [[Call_hid_close (Some 7)], [], []] \<and>
   map thrown (repeat_close 3 open_handle) = [[], [], []] \<and>
   map fault (repeat_close 3 open_handle) = [None, None, None]"
  using close_idempotent [of open_handle 7 "Suc (Suc 0)"]
  by (simp add: open_handle_def numeral_3_eq_3 del: repeat_close.simps)

lemma byte_of_int32: "(word_of_int (sint (word_of_int t :: 32 word)) :: 8 word) = word_of_int t"
proof -
  have "take_bit 8 (signed_take_bit 31 t) = take_bit 8 t"
    by (rule take_bit_signed_take_bit) simp
  then show ?thesis
    by (simp only: word_of_int_eq_iff sint_sbintrunc') simp
qed

lemma byte_mod: "(word_of_int (t mod 256) :: 8 word) = word_of_int t"
  by (simp add: word_of_int_eq_iff take_bit_eq_mod)

lemma byte_of_number:
  "(word_of_int (Int32Value (JSNumber n)) :: byte) = word_of_int (value_mod_256 n)"
proof (cases n)
  case (Finite q)
  have "(word_of_int (Int32Value (JSNumber n)) :: byte) =
          word_of_int (sint (word_of_int (truncate_rat q) :: 32 word))"
    by (simp only: Finite Int32Value_def ToNumber.simps to_bits32.simps)
  also have "\<dots> = word_of_int (truncate_rat q)"
    by (rule byte_of_int32)
  also have "\<dots> = word_of_int (value_mod_256 n)"
    by (simp only: Finite value_mod_256.simps byte_mod)
  finally show ?thesis .
qed (simp_all add: Int32Value_def)

lemma push_elements_numbers:
  "push_elements (map JSNumber ns) acc =
     Inr (acc @ map (\<lambda>n. word_of_int (value_mod_256 n)) ns)"
  by (induction ns arbitrary: acc) (simp_all add: byte_of_number)

lemma write_numbers:
  "NAN_METHOD_write api hid [JSArray (map JSNumber ns)] =
     (let buf = map (\<lambda>n. Some (word_of_int (value_mod_256 n))) ns
      in finished hid [Call_hid_write (hidHandle hid) buf (length ns)]
           (if hid_write api (hidHandle hid) buf (length ns) < 0
            then [''Cannot write to HID device''] else [])
           Undefined_result)"
  using transport_buffer [of "map (\<lambda>n. word_of_int (value_mod_256 n)) ns"]
  by (simp add: NAN_METHOD_write_def arg_def push_elements_numbers HID_write_def Let_def comp_def)

lemma sendFeatureReport_numbers:
  "NAN_METHOD_sendFeatureReport api hid [JSArray (map JSNumber ns)] =
     (let buf = map (\<lambda>n. Some (word_of_int (value_mod_256 n))) ns
      in finished hid [Call_hid_send_feature_report (hidHandle hid) buf (length ns)]
           (if hid_send_feature_report api (hidHandle hid) buf (length ns) = - 1
            then [''could not send feature report to device''] else [])
           (Integer_result (hid_send_feature_report api (hidHandle hid) buf (length ns))))"
  using transport_buffer [of "map (\<lambda>n. word_of_int (value_mod_256 n)) ns"]
  by (simp add: NAN_METHOD_sendFeatureReport_def arg_def push_elements_numbers Let_def comp_def)

text \<open>
  Claim C9. In \<^verbatim>\<open>write\<close> and \<^verbatim>\<open>sendFeatureReport\<close> every numeric element of the
  array reaches the transport buffer as its 32-bit integer value cast to a byte, which
  is the value (truncated towards zero) modulo 256; nothing is rejected for being out of
  range.
\<close>

theorem elements_reduced_mod_256:
  "calls (NAN_METHOD_write api hid [JSArray (map JSNumber ns)]) =
     [Call_hid_write (hidHandle hid)
        (map (\<lambda>n. Some (word_of_int (value_mod_256 n))) ns) (length ns)] \<and>
   calls (NAN_METHOD_sendFeatureReport api hid [JSArray (map JSNumber ns)]) =
     [Call_hid_send_feature_report (hidHandle hid)
        (map (\<lambda>n. Some (word_of_int (value_mod_256 n))) ns) (length ns)] \<and>
   uint (word_of_int (value_mod_256 n) :: byte) = value_mod_256 n \<and>
   value_mod_256 (Finite q) = truncate_rat q mod 256"
proof -
  have "uint (word_of_int (value_mod_256 n) :: byte) = value_mod_256 n"
    by (cases n) (simp_all add: uint_word_of_int take_bit_eq_mod)
  then show ?thesis
    by (simp add: write_numbers sendFeatureReport_numbers finished_def Let_def)
qed

text \<open>
  Claim C5, amended. \<^verbatim>\<open>write(bytes)\<close> with an array of numbers copies the bytes
  unchanged into a transport buffer, passes it to one native write, raises
  \<^verbatim>\<open>Cannot write to HID device\<close> exactly when that call reports a negative result, and
  returns \<open>undefined\<close>: the count the native call reports is not returned.
\<close>

theorem write_returns_undefined:
  "NAN_METHOD_write api hid [JSArray (map JSNumber ns)] =
     finished hid
       [Call_hid_write (hidHandle hid)
          (map (\<lambda>n. Some (word_of_int (value_mod_256 n))) ns) (length ns)]
       (if hid_write api (hidHandle hid)
             (map (\<lambda>n. Some (word_of_int (value_mod_256 n))) ns) (length ns) < 0
        then [''Cannot write to HID device''] else [])
       Undefined_result"
  by (simp add: write_numbers Let_def)

text \<open>
  Claim C5 as stated fails: on a transport that reports three bytes written,
  \<^verbatim>\<open>write([1, 2, 3])\<close> does not return 3.
\<close>

theorem write_returns_count_counterexample:
  "returned (NAN_METHOD_write ok_api open_handle
               [JSArray [JSNumber (Finite 1), JSNumber (Finite 2), JSNumber (Finite 3)]]) \<noteq>
     Some (Integer_result 3)"
  using write_numbers [of ok_api open_handle "[Finite 1, Finite 2, Finite 3]"]
  by (simp add: finished_def Let_def)

lemma store_prefix:
  "n \<le> length written \<Longrightarrow> n \<le> length buf \<Longrightarrow>
   take n (store buf written) = map Some (take n written)"
  by (simp add: store_def take_map min_def)

lemma length_store: "length (store buf written) = length buf"
  by (simp add: store_def)

lemma read_function:
  "NAN_METHOD_read hid [JSFunction f] =
     (finished (hid\<lparr>refs := Suc (refs hid)\<rparr>) [] [] Undefined_result,
      Some \<lparr>iocb_callback = JSFunction f, iocb_error = None, iocb_data = []\<rparr>)"
  by (simp add: NAN_METHOD_read_def arg_def)

lemma readResults_data:
  "readResultsToJSCallbackArguments
     \<lparr>iocb_callback = cb, iocb_error = None, iocb_data = d\<rparr>
     [Undefined_result, Undefined_result] = [Undefined_result, Buffer_result d]"
  by (simp add: readResultsToJSCallbackArguments_def copy_loop_exact)

lemma readResults_error:
  "readResultsToJSCallbackArguments
     \<lparr>iocb_callback = cb, iocb_error = Some (JSException m), iocb_data = d\<rparr>
     [Undefined_result, Undefined_result] = [Error_result m, Undefined_result]"
  by (simp add: readResultsToJSCallbackArguments_def)

text \<open>
  Claim C1. A read submitted with a callback function makes one native read into a
  1024-byte buffer and invokes the callback exactly once with two arguments. If the
  native read returns a negative length the arguments are an error and \<open>undefined\<close>;
  if it returns \<open>n \<ge> 0\<close> they are \<open>undefined\<close> and a buffer of exactly the first
  \<open>n\<close> bytes of the read buffer, which are the bytes the native read stored when it
  stored at least \<open>n\<close>.
\<close>

theorem read_callback_once:
  assumes "hid_read api (hidHandle hid) 1024 = (len, written)" and "len \<le> 1024"
  shows "thrown (submitted (read_request api hid [JSFunction f])) = [] \<and>
         worker_calls (read_request api hid [JSFunction f]) =
           [Call_hid_read (hidHandle hid) (replicate 1024 None) 1024] \<and>
         (len < 0 \<longrightarrow>
            callback_calls (read_request api hid [JSFunction f]) =
              [(JSFunction f,
                [Error_result ''could not read from HID device'', Undefined_result])]) \<and>
         (0 \<le> len \<longrightarrow>
            callback_calls (read_request api hid [JSFunction f]) =
              [(JSFunction f,
                [Undefined_result,
                 Buffer_result (take (nat len) (store (replicate 1024 None) written))])] \<and>
            length (take (nat len) (store (replicate 1024 None) written)) = nat len) \<and>
         (0 \<le> len \<and> nat len \<le> length written \<longrightarrow>
            callback_calls (read_request api hid [JSFunction f]) =
              [(JSFunction f,
                [Undefined_result, Buffer_result (map Some (take (nat len) written))])])"
proof -
  have pre: "0 \<le> len \<Longrightarrow> nat len \<le> length written \<Longrightarrow>
      take (nat len) (store (replicate 1024 None) written) = map Some (take (nat len) written)"
    using assms(2) by (intro store_prefix) simp_all
  show ?thesis
  proof (cases "len < 0")
    case True
    then show ?thesis
      using assms
      by (simp add: read_request_def read_function recvAsync_def recvAsyncDone_def
          finished_def readResults_error Let_def)
  next
    case False
    then show ?thesis
      using assms pre
      by (simp add: read_request_def read_function recvAsync_def recvAsyncDone_def
          finished_def readResults_data length_store Let_def)
  qed
qed

text \<open>A read that yields \<open>AA BB\<close>, and a read that fails.\<close>

theorem read_callback_once_witness:
  "hid_read ok_api (hidHandle open_handle) 1024 = (2, [0xAA, 0xBB]) \<and> (2::int) \<le> 1024 \<and>
   callback_calls (read_request ok_api open_handle [JSFunction 0]) =
     [(JSFunction 0, [Undefined_result, Buffer_result [Some 0xAA, Some 0xBB]])] \<and>
   hid_read failing_api (hidHandle open_handle) 1024 = (- 1, []) \<and>
   callback_calls (read_request failing_api open_handle [JSFunction 0]) =
     [(JSFunction 0, [Error_result ''could not read from HID device'', Undefined_result])]"
proof -
  have a: "hid_read ok_api (hidHandle open_handle) 1024 = (2, [0xAA, 0xBB])"
    by (simp add: ok_api_def ok_read_def)
  have b: "hid_read failing_api (hidHandle open_handle) 1024 = (- 1, [])"
    by (simp add: failing_api_def failing_read_def)
  show ?thesis
    using read_callback_once [OF a, of 0] read_callback_once [OF b, of 0] a b
    by (simp add: store_def)
qed

lemma rest_calls: "calls (getFeatureReport_rest hid cs th buf n) = cs"
  by (simp add: getFeatureReport_rest_def finished_def faulted_def split: sum.splits)

lemma rest_thrown: "thrown (getFeatureReport_rest hid cs th buf n) = th"
  by (simp add: getFeatureReport_rest_def finished_def faulted_def split: sum.splits)

lemma getFeatureReport_thrown:
  "\<exists>rest. thrown (NAN_METHOD_getFeatureReport api hid args) =
     (if length args \<noteq> 2 \<or> ToUint32 (arg args 1) = 0
      then [''need report ID and non-zero length parameter in getFeatureReport'']
      else []) @ rest"
  by (simp add: NAN_METHOD_getFeatureReport_def Let_def rest_thrown faulted_def delete_array_def
      split: prod.splits sum.splits)

text \<open>
  Claim C8 says that a length that coerces to 0 makes \<^verbatim>\<open>getFeatureReport\<close> raise an
  argument error. Whenever the second argument coerces to 0, which includes a call with
  fewer than two arguments, the error is raised at line 264 and control falls through:
  a zero-length buffer is allocated and the report id is written to \<^verbatim>\<open>buf[0]\<close>, past
  its end, before any native call.
\<close>

theorem getFeatureReport_zero_length_out_of_bounds:
  assumes "ToUint32 (arg args 1) = 0"
  shows "NAN_METHOD_getFeatureReport api hid args =
           faulted hid []
             [''need report ID and non-zero length parameter in getFeatureReport'']
             Out_Of_Bounds"
  using assms by (simp add: NAN_METHOD_getFeatureReport_def Let_def new_array_def)

text \<open>A zero length, and a single argument.\<close>

theorem getFeatureReport_zero_length_out_of_bounds_witness:
  "ToUint32 (arg [JSNumber (Finite 1), JSNumber (Finite 0)] 1) = 0 \<and>
   NAN_METHOD_getFeatureReport ok_api open_handle [JSNumber (Finite 1), JSNumber (Finite 0)] =
     faulted open_handle []
       [''need report ID and non-zero length parameter in getFeatureReport''] Out_Of_Bounds \<and>
   ToUint32 (arg [JSNumber (Finite 1)] 1) = 0 \<and>
   NAN_METHOD_getFeatureReport ok_api open_handle [JSNumber (Finite 1)] =
     faulted open_handle []
       [''need report ID and non-zero length parameter in getFeatureReport''] Out_Of_Bounds"
proof -
  have a: "ToUint32 (arg [JSNumber (Finite 1), JSNumber (Finite 0)] 1) = 0"
    by (simp add: ToUint32_def arg_def truncate_rat_def)
  have b: "ToUint32 (arg [JSNumber (Finite 1)] 1) = 0"
    by (simp add: ToUint32_def arg_def)
  show ?thesis
    using getFeatureReport_zero_length_out_of_bounds [OF a, of ok_api open_handle]
      getFeatureReport_zero_length_out_of_bounds [OF b, of ok_api open_handle] a b
    by simp
qed

lemma close_nulls: "hidHandle (hid_after (NAN_METHOD_close hid args)) = None"
  by (cases "hidHandle hid") (simp_all add: close_open close_closed finished_def)

lemma setNonBlocking_one:
  "NAN_METHOD_setNonBlocking api hid [v] =
     finished hid [Call_hid_set_nonblocking (hidHandle hid) (Int32Value v)]
       (if hid_set_nonblocking api (hidHandle hid) (Int32Value v) < 0
        then [''Error setting non-blocking mode.''] else [])
       Undefined_result"
  by (simp add: NAN_METHOD_setNonBlocking_def HID_setNonBlocking_def arg_def Let_def)

lemma getFeatureReport_calls:
  assumes "0 < sint (ToUint32 len)"
  shows "calls (NAN_METHOD_getFeatureReport api hid [rid, len]) =
           [Call_hid_get_feature_report (hidHandle hid)
              ((replicate (nat (sint (ToUint32 len))) None)[0 := Some (ucast (ToUint32 rid))])
              (nat (sint (ToUint32 len)))]"
  using assms
  by (simp add: NAN_METHOD_getFeatureReport_def Let_def arg_def new_array_def rest_calls
      faulted_def delete_array_def split: prod.splits sum.splits)

lemma read_worker_calls:
  "worker_calls (read_request api hid [JSFunction f]) =
     [Call_hid_read (hidHandle hid) (replicate 1024 None) 1024]"
  by (simp add: read_request_def read_function recvAsync_def recvAsyncDone_def finished_def
      Let_def split: prod.splits)

text \<open>
  Claim C2, amended. After \<^verbatim>\<open>close()\<close> the resource reference is null. There is no
  closed-handle check: \<^verbatim>\<open>write\<close>, \<^verbatim>\<open>setNonBlocking\<close>, \<^verbatim>\<open>sendFeatureReport\<close>,
  \<^verbatim>\<open>getFeatureReport\<close> and \<^verbatim>\<open>read\<close>, called with well-formed arguments, each make
  their native call with the null reference, and \<^verbatim>\<open>write\<close>, \<^verbatim>\<open>setNonBlocking\<close> and
  \<^verbatim>\<open>sendFeatureReport\<close> raise an error only when that call reports failure.
\<close>

theorem closed_handle_reaches_native:
  assumes "c = hid_after (NAN_METHOD_close hid args)" and "0 < sint (ToUint32 len)"
  shows "hidHandle c = None \<and>
         NAN_METHOD_write api c [JSArray (map JSNumber ns)] =
           finished c
             [Call_hid_write None (map (\<lambda>n. Some (word_of_int (value_mod_256 n))) ns)
                (length ns)]
             (if hid_write api None (map (\<lambda>n. Some (word_of_int (value_mod_256 n))) ns)
                   (length ns) < 0
              then [''Cannot write to HID device''] else [])
             Undefined_result \<and>
         NAN_METHOD_setNonBlocking api c [v] =
           finished c [Call_hid_set_nonblocking None (Int32Value v)]
             (if hid_set_nonblocking api None (Int32Value v) < 0
              then [''Error setting non-blocking mode.''] else [])
             Undefined_result \<and>
         NAN_METHOD_sendFeatureReport api c [JSArray (map JSNumber ns)] =
           finished c
             [Call_hid_send_feature_report None
                (map (\<lambda>n. Some (word_of_int (value_mod_256 n))) ns) (length ns)]
             (if hid_send_feature_report api None
                   (map (\<lambda>n. Some (word_of_int (value_mod_256 n))) ns) (length ns) = - 1
              then [''could not send feature report to device''] else [])
             (Integer_result
                (hid_send_feature_report api None
                   (map (\<lambda>n. Some (word_of_int (value_mod_256 n))) ns) (length ns))) \<and>
         calls (NAN_METHOD_getFeatureReport api c [rid, len]) =
           [Call_hid_get_feature_report None
              ((replicate (nat (sint (ToUint32 len))) None)[0 := Some (ucast (ToUint32 rid))])
              (nat (sint (ToUint32 len)))] \<and>
         worker_calls (read_request api c [JSFunction f]) =
           [Call_hid_read None (replicate 1024 None) 1024]"
proof -
  have c: "hidHandle c = None"
    using assms(1) by (simp add: close_nulls)
  show ?thesis
    using c getFeatureReport_calls [OF assms(2), of api c rid]
    by (simp add: write_numbers setNonBlocking_one sendFeatureReport_numbers read_worker_calls
        finished_def Let_def)
qed

text \<open>A closed handle on a native layer that reports failure.\<close>

theorem closed_handle_reaches_native_witness:
  "0 < sint (ToUint32 (JSNumber (Finite 4))) \<and>
   hidHandle (hid_after (NAN_METHOD_close open_handle [])) = None \<and>
   NAN_METHOD_setNonBlocking failing_api (hid_after (NAN_METHOD_close open_handle []))
       [JSNumber (Finite 1)] =
     finished (hid_after (NAN_METHOD_close open_handle []))
       [Call_hid_set_nonblocking None 1] [''Error setting non-blocking mode.'']
       Undefined_result \<and>
   calls (NAN_METHOD_getFeatureReport failing_api
            (hid_after (NAN_METHOD_close open_handle []))
            [JSNumber (Finite 1), JSNumber (Finite 4)]) =
     [Call_hid_get_feature_report None [Some 1, None, None, None] 4]"
proof -
  have a: "0 < sint (ToUint32 (JSNumber (Finite 4)))"
    by (simp add: ToUint32_def truncate_rat_def)
  have b: "Int32Value (JSNumber (Finite 1)) = 1"
    by (simp add: Int32Value_def truncate_rat_def)
  have d: "hid_set_nonblocking failing_api None 1 = - 1"
    by (simp add: failing_api_def failing_set_nonblocking_def)
  have e: "(replicate (nat (sint (ToUint32 (JSNumber (Finite 4))))) None)
             [0 := Some (ucast (ToUint32 (JSNumber (Finite 1))))] =
           [Some (1 :: byte), None, None, None]"
    by (simp add: ToUint32_def truncate_rat_def eval_nat_numeral)
  have g: "nat (sint (ToUint32 (JSNumber (Finite 4)))) = 4"
    by (simp add: ToUint32_def truncate_rat_def)
  show ?thesis
    using closed_handle_reaches_native [OF refl a,
        of open_handle "[]" failing_api "[]" "JSNumber (Finite 1)" "JSNumber (Finite 1)" 0]
      a b d e g
    by simp
qed

text \<open>
  Claim C2 as stated fails: after \<^verbatim>\<open>close()\<close>, \<^verbatim>\<open>write([1, 2, 3])\<close> calls the native
  write with the null reference and raises nothing when that call reports success.
\<close>

theorem closed_handle_counterexample:
  "calls (NAN_METHOD_write ok_api (hid_after (NAN_METHOD_close open_handle []))
            [JSArray [JSNumber (Finite 1), JSNumber (Finite 2), JSNumber (Finite 3)]]) =
     [Call_hid_write None [Some 1, Some 2, Some 3] 3] \<and>
   thrown (NAN_METHOD_write ok_api (hid_after (NAN_METHOD_close open_handle []))
             [JSArray [JSNumber (Finite 1), JSNumber (Finite 2), JSNumber (Finite 3)]]) = []"
  by code_simp

lemma property_vendorId:
  "property (deviceInfo ct d) ''vendorId'' = Some (Integer_result (vendor_id d))"
  by (simp add: deviceInfo_def)

lemma property_productId:
  "property (deviceInfo ct d) ''productId'' = Some (Integer_result (product_id d))"
  by (simp add: deviceInfo_def)

lemma devices_none:
  "NAN_METHOD_devices ct api [] =
     \<lparr>enum_calls = [Call_hid_enumerate 0 0, Call_hid_free_enumeration], enum_thrown = [],
      enum_returned = map (deviceInfo ct) (hid_enumerate api 0 0)\<rparr>"
  by (simp add: NAN_METHOD_devices_def to_unsigned_short_def)

lemma devices_two:
  "NAN_METHOD_devices ct api [v, p] =
     \<lparr>enum_calls =
        [Call_hid_enumerate (to_unsigned_short (Int32Value v))
           (to_unsigned_short (Int32Value p)),
         Call_hid_free_enumeration],
      enum_thrown = [],
      enum_returned =
        map (deviceInfo ct)
          (hid_enumerate api (to_unsigned_short (Int32Value v))
             (to_unsigned_short (Int32Value p)))\<rparr>"
  by (simp add: NAN_METHOD_devices_def arg_def)

text \<open>
  Claim C6, amended. Called with no arguments the enumeration asks the native layer for
  vendor 0 and product 0; called with two it passes their 32-bit integer values reduced
  modulo \<open>2 ^ 16\<close>. With the native filter as the spec describes it, no arguments
  returns every attached device, and a call with two arguments returns, in order, the
  devices of the unfiltered result that match each reduced id: an id reduced to 0
  matches every device, any other id matches exactly. So the filtered result is
  contained in the unfiltered one.
\<close>

theorem enumerate_filter_superset:
  assumes "hid_enumerate api = hid_enumerate_spec attached"
    and "vid = to_unsigned_short (Int32Value v)"
    and "pid = to_unsigned_short (Int32Value p)"
  shows "enum_calls (NAN_METHOD_devices ct api []) =
           [Call_hid_enumerate 0 0, Call_hid_free_enumeration] \<and>
         enum_returned (NAN_METHOD_devices ct api []) = map (deviceInfo ct) attached \<and>
         enum_calls (NAN_METHOD_devices ct api [v, p]) =
           [Call_hid_enumerate vid pid, Call_hid_free_enumeration] \<and>
         enum_returned (NAN_METHOD_devices ct api [v, p]) =
           filter (\<lambda>d. (vid = 0 \<or> property d ''vendorId'' = Some (Integer_result vid)) \<and>
                       (pid = 0 \<or> property d ''productId'' = Some (Integer_result pid)))
             (enum_returned (NAN_METHOD_devices ct api [])) \<and>
         set (enum_returned (NAN_METHOD_devices ct api [v, p])) \<subseteq>
           set (enum_returned (NAN_METHOD_devices ct api []))"
  using assms
  by (auto simp add: devices_none devices_two hid_enumerate_spec_def filter_map comp_def
      property_vendorId property_productId)

text \<open>Two attached devices: filtered to the first one's ids, and to its vendor alone.\<close>

theorem enumerate_filter_superset_witness:
  "hid_enumerate enumerating_api = hid_enumerate_spec [sample_device, other_device] \<and>
   to_unsigned_short (Int32Value (JSNumber (Finite 0x046d))) = 0x046d \<and>
   to_unsigned_short (Int32Value (JSNumber (Finite 0xc52b))) = 0xc52b \<and>
   to_unsigned_short (Int32Value (JSNumber (Finite 0))) = 0 \<and>
   enum_returned (NAN_METHOD_devices ctype_narrow_same enumerating_api []) =
     [deviceInfo ctype_narrow_same sample_device, deviceInfo ctype_narrow_same other_device] \<and>
   enum_returned (NAN_METHOD_devices ctype_narrow_same enumerating_api
                    [JSNumber (Finite 0x046d), JSNumber (Finite 0xc52b)]) =
     [deviceInfo ctype_narrow_same sample_device] \<and>
   enum_returned (NAN_METHOD_devices ctype_narrow_same enumerating_api
                    [JSNumber (Finite 0x046d), JSNumber (Finite 0)]) =
     [deviceInfo ctype_narrow_same sample_device]"
proof -
  have a: "hid_enumerate enumerating_api = hid_enumerate_spec [sample_device, other_device]"
    by (simp add: enumerating_api_def)
  have v: "to_unsigned_short (Int32Value (JSNumber (Finite 0x046d))) = 0x046d"
    by (simp add: to_unsigned_short_def Int32Value_def truncate_rat_def)
  have p: "to_unsigned_short (Int32Value (JSNumber (Finite 0xc52b))) = 0xc52b"
    by (simp add: to_unsigned_short_def Int32Value_def truncate_rat_def)
  have z: "to_unsigned_short (Int32Value (JSNumber (Finite 0))) = 0"
    by (simp add: to_unsigned_short_def Int32Value_def truncate_rat_def)
  have s: "vendor_id sample_device = 0x046d" "product_id sample_device = 0xc52b"
    "vendor_id other_device = 0x1234"
    by (simp_all add: sample_device_def other_device_def)
  show ?thesis
    using enumerate_filter_superset [OF a v [symmetric] p [symmetric],
        of ctype_narrow_same]
      enumerate_filter_superset [OF a v [symmetric] z [symmetric],
        of ctype_narrow_same] a v p z s
    by (simp add: property_vendorId property_productId)
qed

text \<open>
  Claim C6 as stated fails: the non-zero vendor argument 65536 reaches the native layer
  as 0 and filters nothing. With vendor 65536 and product \<open>0xc52b\<close> the result is the
  device of vendor \<open>0x046d\<close>, which is not in the unfiltered result restricted to
  vendor 65536.
\<close>

theorem enumerate_exact_match_counterexample:
  "enum_calls (NAN_METHOD_devices ctype_narrow_same enumerating_api
                 [JSNumber (Finite 65536), JSNumber (Finite 0xc52b)]) =
     [Call_hid_enumerate 0 0xc52b, Call_hid_free_enumeration] \<and>
   enum_returned (NAN_METHOD_devices ctype_narrow_same enumerating_api
                    [JSNumber (Finite 65536), JSNumber (Finite 0xc52b)]) =
     [deviceInfo ctype_narrow_same sample_device] \<and>
   property (deviceInfo ctype_narrow_same sample_device) ''vendorId'' =
     Some (Integer_result 0x046d)"
proof -
  have v: "to_unsigned_short (Int32Value (JSNumber (Finite 65536))) = 0"
    by (simp add: to_unsigned_short_def Int32Value_def truncate_rat_def)
  have p: "to_unsigned_short (Int32Value (JSNumber (Finite 0xc52b))) = 0xc52b"
    by (simp add: to_unsigned_short_def Int32Value_def truncate_rat_def)
  show ?thesis
    by (simp add: devices_two v p enumerating_api_def hid_enumerate_spec_def
        sample_device_def other_device_def property_vendorId)
qed

text \<open>
  Claim C10 says that a wide character with no narrow representation becomes \<open>?\<close>.
  For a device whose product string is the letter U+0141, the descriptor's product is
  \<open>A\<close> under either library facet: the low byte \<open>0x41\<close> of the character.
\<close>

theorem narrow_keeps_low_byte:
  "property (deviceInfo ctype_narrow_same sample_device) ''product'' =
     Some (String_result ''A'') \<and>
   property (deviceInfo ctype_narrow_ascii sample_device) ''product'' =
     Some (String_result ''A'') \<and>
   narrow ctype_narrow_same [0x141] = ''A'' \<and>
   narrow ctype_narrow_ascii [0x141] = ''A''"
  by code_simp

text \<open>
  The rest of what claim C10 says holds: the four string properties are absent exactly
  when the native field is null, and the six numeric properties are always present.
\<close>

lemma descriptor_fields:
  "(property (deviceInfo ct d) ''path'' = None) = (path d = None) \<and>
   (property (deviceInfo ct d) ''serialNumber'' = None) = (serial_number d = None) \<and>
   (property (deviceInfo ct d) ''manufacturer'' = None) = (manufacturer_string d = None) \<and>
   (property (deviceInfo ct d) ''product'' = None) = (product_string d = None) \<and>
   property (deviceInfo ct d) ''vendorId'' = Some (Integer_result (vendor_id d)) \<and>
   property (deviceInfo ct d) ''productId'' = Some (Integer_result (product_id d)) \<and>
   property (deviceInfo ct d) ''release'' = Some (Integer_result (release_number d)) \<and>
   property (deviceInfo ct d) ''interface'' = Some (Integer_result (interface_number d)) \<and>
   property (deviceInfo ct d) ''usagePage'' = Some (Integer_result (usage_page d)) \<and>
   property (deviceInfo ct d) ''usage'' = Some (Integer_result (usage d))"
  by (simp add: deviceInfo_def map_add_def split: option.splits)

lemma fill_fold:
  "k \<le> length bs \<Longrightarrow>
   fold (\<lambda>i r. case r of
                 Inl f \<Rightarrow> Inl f
               | Inr retval \<Rightarrow>
                   (case read_element (map Some bs @ rest) i of
                      Inl f \<Rightarrow> Inl f
                    | Inr v \<Rightarrow> Inr (retval @ [v])))
        [0..<k] (Inr []) =
     Inr (map (\<lambda>b. Integer_result (uint b)) (take k bs))"
proof (induction k)
  case 0
  then show ?case by simp
next
  case (Suc k)
  have "read_element (map Some bs @ rest) k = Inr (Integer_result (uint (bs ! k)))"
    using Suc.prems by (simp add: read_element_def nth_append)
  then show ?case
    using Suc by (simp add: take_Suc_conv_app_nth)
qed

lemma fill_retval_prefix:
  "k \<le> length bs \<Longrightarrow>
   fill_retval (map Some bs @ rest) (int k) =
     Inr (map (\<lambda>b. Integer_result (uint b)) (take k bs))"
  by (simp add: fill_retval_def fill_fold)

text \<open>
  The success path of \<^verbatim>\<open>getFeatureReport\<close>: the buffer passed has the requested size
  and the report id in its first byte, and the result is the first \<open>r\<close> bytes stored by
  the native call.
\<close>

lemma getFeatureReport_success:
  assumes "0 < sint (ToUint32 len)"
    and "hid_get_feature_report api (hidHandle hid)
           ((replicate (nat (sint (ToUint32 len))) None)[0 := Some (ucast (ToUint32 rid))])
           (nat (sint (ToUint32 len))) = (r, written)"
    and "0 \<le> r" and "nat r \<le> length written" and "r \<le> sint (ToUint32 len)"
  shows "NAN_METHOD_getFeatureReport api hid [rid, len] =
           finished hid
             [Call_hid_get_feature_report (hidHandle hid)
                ((replicate (nat (sint (ToUint32 len))) None)[0 := Some (ucast (ToUint32 rid))])
                (nat (sint (ToUint32 len)))]
             []
             (Array_result (map (\<lambda>b. Integer_result (uint b)) (take (nat r) written)))"
proof -
  let ?n = "nat (sint (ToUint32 len))"
  let ?buf = "(replicate ?n None)[0 := Some (ucast (ToUint32 rid))]"
  have nz: "ToUint32 len \<noteq> 0" using assms(1) by auto
  have st: "store ?buf written = map Some (take ?n written) @ drop (length written) ?buf"
    by (simp add: store_def)
  have k: "nat r \<le> length (take ?n written)"
    using assms(3,4,5) by simp
  have "fill_retval (store ?buf written) (int (nat r)) =
      Inr (map (\<lambda>b. Integer_result (uint b)) (take (nat r) (take ?n written)))"
    unfolding st by (rule fill_retval_prefix [OF k])
  moreover have "take (nat r) (take ?n written) = take (nat r) written"
    using assms(3,5) by (simp add: min_def)
  ultimately have fr: "fill_retval (store ?buf written) r =
      Inr (map (\<lambda>b. Integer_result (uint b)) (take (nat r) written))"
    using assms(3) by simp
  show ?thesis
    using assms(1,2,3) nz fr
    by (simp add: NAN_METHOD_getFeatureReport_def Let_def arg_def new_array_def
        getFeatureReport_rest_def delete_array_def)
qed

text \<open>
  Claim C4 says that on native failure \<^verbatim>\<open>getFeatureReport\<close> fails with the read
  error. For every handle, report id and valid length, when the native call returns
  \<open>-1\<close>: the buffer is freed and the error is raised at lines 277 and 278, control
  then falls through to the second \<^verbatim>\<open>delete[] buf\<close> at line 285, and the execution ends
  in a double free.
\<close>

theorem getFeatureReport_failure_double_free:
  assumes "0 < sint (ToUint32 len)"
    and "hid_get_feature_report api (hidHandle hid)
           ((replicate (nat (sint (ToUint32 len))) None)[0 := Some (ucast (ToUint32 rid))])
           (nat (sint (ToUint32 len))) = (- 1, written)"
  shows "NAN_METHOD_getFeatureReport api hid [rid, len] =
           faulted hid
             [Call_hid_get_feature_report (hidHandle hid)
                ((replicate (nat (sint (ToUint32 len))) None)[0 := Some (ucast (ToUint32 rid))])
                (nat (sint (ToUint32 len)))]
             [''could not get feature report from device''] Double_Free"
proof -
  have nz: "ToUint32 len \<noteq> 0" using assms(1) by auto
  show ?thesis
    using assms nz
    by (simp add: NAN_METHOD_getFeatureReport_def Let_def arg_def new_array_def
        getFeatureReport_rest_def delete_array_def fill_retval_def)
qed

text \<open>Report id 1 and length 8 on an open handle, the native call returning \<open>-1\<close>.\<close>

theorem getFeatureReport_failure_double_free_witness:
  "0 < sint (ToUint32 (JSNumber (Finite 8))) \<and>
   NAN_METHOD_getFeatureReport failing_api open_handle
     [JSNumber (Finite 1), JSNumber (Finite 8)] =
   faulted open_handle
     [Call_hid_get_feature_report (Some 7)
        [Some 1, None, None, None, None, None, None, None] 8]
     [''could not get feature report from device''] Double_Free"
proof -
  have a: "0 < sint (ToUint32 (JSNumber (Finite 8)))"
    by (simp add: ToUint32_def truncate_rat_def)
  have b: "hid_get_feature_report failing_api (hidHandle open_handle)
           ((replicate (nat (sint (ToUint32 (JSNumber (Finite 8))))) None)
              [0 := Some (ucast (ToUint32 (JSNumber (Finite 1))))])
           (nat (sint (ToUint32 (JSNumber (Finite 8))))) = (- 1, [])"
    by (simp add: failing_api_def failing_get_feature_report_def)
  have c: "(replicate (nat (sint (ToUint32 (JSNumber (Finite 8))))) None)
              [0 := Some (ucast (ToUint32 (JSNumber (Finite 1))))] =
           [Some (1::byte), None, None, None, None, None, None, None]"
    by (simp add: ToUint32_def truncate_rat_def eval_nat_numeral)
  have d: "nat (sint (ToUint32 (JSNumber (Finite 8)))) = 8" "hidHandle open_handle = Some 7"
    by (simp_all add: ToUint32_def truncate_rat_def open_handle_def)
  show ?thesis
    using getFeatureReport_failure_double_free [OF a b] a unfolding c unfolding d by simp
qed

lemma write_extra:
  "NAN_METHOD_write api hid [JSArray (map JSNumber ns), x] =
     (let buf = map (\<lambda>n. Some (word_of_int (value_mod_256 n))) ns
      in finished hid [Call_hid_write (hidHandle hid) buf (length ns)]
           (''HID write requires one argument'' #
            (if hid_write api (hidHandle hid) buf (length ns) < 0
             then [''Cannot write to HID device''] else []))
           Undefined_result)"
  using transport_buffer [of "map (\<lambda>n. word_of_int (value_mod_256 n)) ns"]
  by (simp add: NAN_METHOD_write_def arg_def push_elements_numbers HID_write_def Let_def comp_def)

lemma sendFeatureReport_extra:
  "NAN_METHOD_sendFeatureReport api hid [JSArray (map JSNumber ns), x] =
     (let buf = map (\<lambda>n. Some (word_of_int (value_mod_256 n))) ns
      in finished hid [Call_hid_send_feature_report (hidHandle hid) buf (length ns)]
           (''need report (including id in first byte) only in sendFeatureReport'' #
            (if hid_send_feature_report api (hidHandle hid) buf (length ns) = - 1
             then [''could not send feature report to device''] else []))
           (Integer_result (hid_send_feature_report api (hidHandle hid) buf (length ns))))"
  using transport_buffer [of "map (\<lambda>n. word_of_int (value_mod_256 n)) ns"]
  by (simp add: NAN_METHOD_sendFeatureReport_def arg_def push_elements_numbers Let_def comp_def)

lemma setNonBlocking_none:
  "NAN_METHOD_setNonBlocking api hid [] =
     finished hid [Call_hid_set_nonblocking (hidHandle hid) 0]
       (''Expecting a 1 to enable, 0 to disable as the first argument.'' #
        (if hid_set_nonblocking api (hidHandle hid) 0 < 0
         then [''Error setting non-blocking mode.''] else []))
       Undefined_result"
  by (simp add: NAN_METHOD_setNonBlocking_def HID_setNonBlocking_def arg_def Let_def
      Int32Value_def)

lemma getFeatureReport_extra_calls:
  assumes "0 < sint (ToUint32 len)"
  shows "calls (NAN_METHOD_getFeatureReport api hid [rid, len, x]) =
           [Call_hid_get_feature_report (hidHandle hid)
              ((replicate (nat (sint (ToUint32 len))) None)[0 := Some (ucast (ToUint32 rid))])
              (nat (sint (ToUint32 len)))]"
  using assms
  by (simp add: NAN_METHOD_getFeatureReport_def Let_def arg_def new_array_def rest_calls
      faulted_def delete_array_def split: prod.splits sum.splits)

text \<open>
  Claim C7 says that invalid arguments fail fast without a native call. With one
  argument too many (none at all for \<^verbatim>\<open>setNonBlocking\<close>) each of the four operations
  raises its argument error and then still makes its native call.
\<close>

theorem invalid_arity_reaches_native:
  assumes "0 < sint (ToUint32 len)"
  shows "take 1 (thrown (NAN_METHOD_write api hid [JSArray (map JSNumber ns), x])) =
           [''HID write requires one argument''] \<and>
         calls (NAN_METHOD_write api hid [JSArray (map JSNumber ns), x]) =
           [Call_hid_write (hidHandle hid)
              (map (\<lambda>n. Some (word_of_int (value_mod_256 n))) ns) (length ns)] \<and>
         take 1 (thrown (NAN_METHOD_setNonBlocking api hid [])) =
           [''Expecting a 1 to enable, 0 to disable as the first argument.''] \<and>
         calls (NAN_METHOD_setNonBlocking api hid []) =
           [Call_hid_set_nonblocking (hidHandle hid) 0] \<and>
         take 1 (thrown (NAN_METHOD_getFeatureReport api hid [rid, len, x])) =
           [''need report ID and non-zero length parameter in getFeatureReport''] \<and>
         calls (NAN_METHOD_getFeatureReport api hid [rid, len, x]) =
           [Call_hid_get_feature_report (hidHandle hid)
              ((replicate (nat (sint (ToUint32 len))) None)[0 := Some (ucast (ToUint32 rid))])
              (nat (sint (ToUint32 len)))] \<and>
         take 1 (thrown (NAN_METHOD_sendFeatureReport api hid [JSArray (map JSNumber ns), x])) =
           [''need report (including id in first byte) only in sendFeatureReport''] \<and>
         calls (NAN_METHOD_sendFeatureReport api hid [JSArray (map JSNumber ns), x]) =
           [Call_hid_send_feature_report (hidHandle hid)
              (map (\<lambda>n. Some (word_of_int (value_mod_256 n))) ns) (length ns)]"
proof -
  obtain rest where "thrown (NAN_METHOD_getFeatureReport api hid [rid, len, x]) =
      [''need report ID and non-zero length parameter in getFeatureReport''] @ rest"
    using getFeatureReport_thrown [of api hid "[rid, len, x]"] by auto
  then show ?thesis
    using getFeatureReport_extra_calls [OF assms, of api hid rid x]
    by (simp add: write_extra sendFeatureReport_extra setNonBlocking_none finished_def Let_def)
qed

text \<open>Each operation on an open handle, with a surplus argument 9.\<close>

theorem invalid_arity_reaches_native_witness:
  "0 < sint (ToUint32 (JSNumber (Finite 4))) \<and>
   take 1 (thrown (NAN_METHOD_write ok_api open_handle
                     [JSArray [JSNumber (Finite 1)], JSNumber (Finite 9)])) =
     [''HID write requires one argument''] \<and>
   calls (NAN_METHOD_write ok_api open_handle
            [JSArray [JSNumber (Finite 1)], JSNumber (Finite 9)]) =
     [Call_hid_write (Some 7) [Some 1] 1] \<and>
   calls (NAN_METHOD_setNonBlocking ok_api open_handle []) =
     [Call_hid_set_nonblocking (Some 7) 0] \<and>
   calls (NAN_METHOD_getFeatureReport ok_api open_handle
            [JSNumber (Finite 1), JSNumber (Finite 4), JSNumber (Finite 9)]) =
     [Call_hid_get_feature_report (Some 7) [Some 1, None, None, None] 4] \<and>
   calls (NAN_METHOD_sendFeatureReport ok_api open_handle
            [JSArray [JSNumber (Finite 1)], JSNumber (Finite 9)]) =
     [Call_hid_send_feature_report (Some 7) [Some 1] 1]"
proof -
  have a: "0 < sint (ToUint32 (JSNumber (Finite 4)))"
    by (simp add: ToUint32_def truncate_rat_def)
  have e: "(replicate (nat (sint (ToUint32 (JSNumber (Finite 4))))) None)
             [0 := Some (ucast (ToUint32 (JSNumber (Finite 1))))] =
           [Some (1 :: byte), None, None, None]"
    by (simp add: ToUint32_def truncate_rat_def eval_nat_numeral)
  have g: "nat (sint (ToUint32 (JSNumber (Finite 4)))) = 4"
    by (simp add: ToUint32_def truncate_rat_def)
  have h: "hidHandle open_handle = Some 7"
    by (simp add: open_handle_def)
  show ?thesis
    using invalid_arity_reaches_native [OF a, where api = ok_api and hid = open_handle
        and ns = "[Finite 1]" and x = "JSNumber (Finite 9)" and rid = "JSNumber (Finite 1)"]
      a e g h
    by (simp add: truncate_rat_def)
qed

end
